theory Spec2Isabelle
  imports Complex_Main
begin

section \<open>Plant health classification: heuristic scorer, decision unit, recommendations\<close>

text \<open>
  A shallow embedding of the Python sources \<^verbatim>\<open>test_new_crops_model.py\<close>,
  \<^verbatim>\<open>api/predict.py\<close> and \<^verbatim>\<open>create_ml_api.py\<close>.

  Conventions of the embedding:
  \<^item> Python and NumPy floating-point numbers are modelled as \<^typ>\<open>real\<close>; the
    decimal constants of the source (\<open>0.6\<close>, \<open>0.001\<close>, ...) are the exact rationals.
    In the feature extractor and the scorer the arithmetic is exact. In the confidence
    computation, where truncation makes the last bit visible, the rounding of each
    floating-point operation is an explicit argument.
  \<^item> A Python \<open>str\<close> is a \<^typ>\<open>string\<close> of ASCII characters; a value that may be
    \<open>None\<close> is an \<open>option\<close>.
  \<^item> The draw of \<open>np.random.normal(0, 0.01)\<close> is an explicit argument of the scorer.
  \<^item> The base64/PIL decoder and the Keras model are external: they are parameters.
\<close>

subsection \<open>Python string operations\<close>

text \<open>\<open>str.lower()\<close> on ASCII text: \<open>A\<close>..\<open>Z\<close> (codes 65..90) move up by 32.\<close>

definition lower_char :: "char \<Rightarrow> char" where
  "lower_char c =
     (let n = (of_char c :: nat) in if 65 \<le> n \<and> n \<le> 90 then char_of (n + 32) else c)"

definition lower :: "string \<Rightarrow> string" where
  "lower s = map lower_char s"

text \<open>\<open>s.startswith(p)\<close>.\<close>

fun startswith :: "string \<Rightarrow> string \<Rightarrow> bool" where
  "startswith s [] = True"
| "startswith [] (p # ps) = False"
| "startswith (x # xs) (p # ps) = (x = p \<and> startswith xs ps)"

text \<open>\<open>p in s\<close> for two strings: \<open>p\<close> occurs in \<open>s\<close> as a contiguous block.\<close>

fun py_in :: "string \<Rightarrow> string \<Rightarrow> bool" where
  "py_in p [] = (p = [])"
| "py_in p (x # xs) = (startswith (x # xs) p \<or> py_in p xs)"

subsection \<open>Crop bias table (\<^verbatim>\<open>test_new_crops_model.py\<close>, \<open>get_crop_adjustment\<close>)\<close>

definition get_crop_adjustment :: "string option \<Rightarrow> real" where
  "get_crop_adjustment crop_type =
     (case crop_type of
        None \<Rightarrow> 0
      | Some ct \<Rightarrow>
          if ct = [] then 0
          else
            (let crop = lower ct in
             if py_in ''palak'' crop \<or> py_in ''keerai'' crop \<or> py_in ''spinach'' crop then 0.1
             else if py_in ''arai'' crop \<or> py_in ''siru'' crop then 0.1
             else if py_in ''tomato'' crop then - 0.5
             else if py_in ''pepper'' crop then - 0.3
             else if py_in ''strawberry'' crop then - 0.8
             else if py_in ''corn'' crop \<or> py_in ''maize'' crop then 0.3
             else 0))"

subsection \<open>Heuristic scorer (\<open>simulate_web_model_prediction\<close>)\<close>

text \<open>The dictionary returned by \<open>analyze_image_features\<close>.\<close>

record features =
  brightness :: real
  contrast :: real
  green_dominance :: real
  color_balance :: real
  texture_complexity :: real
  r_mean :: real
  g_mean :: real
  b_mean :: real

text \<open>
  Lines 86--110: the variable \<open>health_score\<close> as it stands just before the random draw
  is added. Each \<open>let\<close> is one assignment of the source, in order.
\<close>

definition health_score :: "features \<Rightarrow> string option \<Rightarrow> real" where
  "health_score f crop_type =
     (let hs = (0.5::real);
          hs = (if brightness f > 0.6 \<and> green_dominance f > 0.35 \<and> texture_complexity f > 0.02
                then 0.95
                else if brightness f > 0.4 \<and> green_dominance f > 0.3 then 0.75
                else if brightness f < 0.3 \<or> green_dominance f < 0.25 then 0.15
                else 0.45);
          hs = (if 0.2 < contrast f \<and> contrast f < 0.4 then hs + 0.05 else hs);
          hs = (if color_balance f > 0.3 then hs - 0.1 else hs);
          crop_adjustment = get_crop_adjustment crop_type;
          hs = hs + crop_adjustment * 0.1
      in hs)"

text \<open>
  The whole function: \<open>None\<close> features return \<open>0.0\<close> at once; otherwise the draw
  \<open>jitter\<close> is added and the sum is clamped by \<open>max(0.001, min(0.999, health_score))\<close>.
\<close>

definition simulate_web_model_prediction :: "features option \<Rightarrow> string option \<Rightarrow> real \<Rightarrow> real" where
  "simulate_web_model_prediction fo crop_type jitter =
     (case fo of
        None \<Rightarrow> 0
      | Some f \<Rightarrow>
          (let hs = health_score f crop_type;
               hs = hs + jitter;
               final_prediction = max 0.001 (min 0.999 hs)
           in final_prediction))"

text \<open>Line 222 of the test driver: the verdict drawn from the heuristic score.\<close>

definition sim_healthy :: "real \<Rightarrow> bool" where
  "sim_healthy sim_prediction = (sim_prediction > 0.5)"

subsection \<open>Feature extractor (\<open>analyze_image_features\<close>)\<close>

text \<open>
  The array \<open>img = img_array[0]\<close> of shape \<open>[height, width, 3]\<close>: a list of rows, each a
  list of pixels, each pixel its three channel values. The batch axis of size one that
  \<open>np.expand_dims\<close> adds and \<open>img_array[0]\<close> removes is left implicit.
\<close>

type_synonym pixel = "real \<times> real \<times> real"
type_synonym image = "pixel list list"

text \<open>
  \<open>np.mean\<close> and \<open>np.var\<close> of the flattened values. On an empty array NumPy yields
  \<open>nan\<close>; the quotient below is only meant for the non-empty arrays of a 224 by 224 image.
\<close>

definition np_mean :: "real list \<Rightarrow> real" where
  "np_mean xs = sum_list xs / real (length xs)"

definition np_var :: "real list \<Rightarrow> real" where
  "np_var xs = (let m = np_mean xs in np_mean (map (\<lambda>x. (x - m)\<^sup>2) xs))"

definition pixels :: "image \<Rightarrow> pixel list" where
  "pixels img = concat img"

definition all_values :: "image \<Rightarrow> real list" where
  "all_values img = concat (map (\<lambda>(r, g, b). [r, g, b]) (pixels img))"

definition channel0 :: "image \<Rightarrow> real list" where
  "channel0 img = map (\<lambda>(r, g, b). r) (pixels img)"

definition channel1 :: "image \<Rightarrow> real list" where
  "channel1 img = map (\<lambda>(r, g, b). g) (pixels img)"

definition channel2 :: "image \<Rightarrow> real list" where
  "channel2 img = map (\<lambda>(r, g, b). b) (pixels img)"

text \<open>\<open>np.mean(img, axis=2)\<close>: the grey value of each pixel.\<close>

definition gray_of :: "image \<Rightarrow> real list list" where
  "gray_of img = map (map (\<lambda>(r, g, b). (r + g + b) / 3)) img"

text \<open>\<open>np.abs(np.diff(gray, axis=1))\<close>: differences of horizontal neighbours, row by row.\<close>

definition abs_diff :: "real list \<Rightarrow> real list \<Rightarrow> real list" where
  "abs_diff xs ys = map (\<lambda>(a, b). \<bar>b - a\<bar>) (zip xs ys)"

definition edges_x_of :: "real list list \<Rightarrow> real list" where
  "edges_x_of gray = concat (map (\<lambda>row. abs_diff row (tl row)) gray)"

text \<open>\<open>np.abs(np.diff(gray, axis=0))\<close>: differences of vertical neighbours.\<close>

definition edges_y_of :: "real list list \<Rightarrow> real list" where
  "edges_y_of gray = concat (map (\<lambda>(row, below). abs_diff row below) (zip gray (tl gray)))"

definition analyze_image_features :: "image option \<Rightarrow> features option" where
  "analyze_image_features img_array =
     (case img_array of
        None \<Rightarrow> None
      | Some img \<Rightarrow>
          (let brightness = np_mean (all_values img);
               variance = np_var (all_values img);
               contrast = sqrt variance;
               r_mean = np_mean (channel0 img);
               g_mean = np_mean (channel1 img);
               b_mean = np_mean (channel2 img);
               total_color = r_mean + g_mean + b_mean + 0.001;
               green_dominance = g_mean / total_color;
               color_balance = \<bar>r_mean - b_mean\<bar>;
               gray = gray_of img;
               edges_x = edges_x_of gray;
               edges_y = edges_y_of gray;
               texture_complexity = np_mean edges_x + np_mean edges_y
           in Some \<lparr>brightness = brightness, contrast = contrast,
                     green_dominance = green_dominance, color_balance = color_balance,
                     texture_complexity = texture_complexity,
                     r_mean = r_mean, g_mean = g_mean, b_mean = b_mean\<rparr>))"

text \<open>
  The tensor the preprocessing hands over: 224 rows of 224 pixels, every value in
  \<open>[0, 1]\<close> (a byte divided by \<open>255.0\<close>).
\<close>

definition unit_pixel :: "pixel \<Rightarrow> bool" where
  "unit_pixel p = (case p of (r, g, b) \<Rightarrow> 0 \<le> r \<and> r \<le> 1 \<and> 0 \<le> g \<and> g \<le> 1 \<and> 0 \<le> b \<and> b \<le> 1)"

definition normalized_tensor :: "image \<Rightarrow> bool" where
  "normalized_tensor img =
     (length img = 224 \<and> list_all (\<lambda>row. length row = 224 \<and> list_all unit_pixel row) img)"

text \<open>An image of \<open>h\<close> rows and \<open>w\<close> columns whose pixels are all \<open>px\<close>.\<close>

definition uniform_image :: "nat \<Rightarrow> nat \<Rightarrow> pixel \<Rightarrow> image" where
  "uniform_image h w px = replicate h (replicate w px)"

definition mid_green :: image where
  "mid_green = uniform_image 224 224 (50 / 255, 150 / 255, 50 / 255)"

text \<open>The feature vector of that image, in closed form.\<close>

definition mid_green_features :: features where
  "mid_green_features =
     \<lparr>brightness = 50 / 153, contrast = sqrt (800 / 23409),
      green_dominance = 30000 / 50051, color_balance = 0, texture_complexity = 0,
      r_mean = 50 / 255, g_mean = 150 / 255, b_mean = 50 / 255\<rparr>"

subsection \<open>Floating-point rounding\<close>

text \<open>
  Rounding to the nearest integer, ties to the even one: the rule IEEE 754 applies to
  the significand.
\<close>

definition round_half_even :: "real \<Rightarrow> int" where
  "round_half_even x =
     (let f = \<lfloor>x\<rfloor>; d = x - of_int f in
      if d < 1 / 2 then f else if 1 / 2 < d then f + 1 else if even f then f else f + 1)"

text \<open>
  Rounding a real number to the nearest binary floating-point number with \<open>prec\<close>
  significant bits (round to nearest, ties to even). The exponent range is unbounded:
  overflow, subnormal numbers and \<open>nan\<close> are left out. Every value rounded in the
  confidence computation on a probability in \<open>[0, 1]\<close> lies between 1/2 and 100, well
  inside the normal range of both formats below.
\<close>

definition round_binary :: "nat \<Rightarrow> real \<Rightarrow> real" where
  "round_binary prec x =
     (if x = 0 then 0
      else (let e = \<lfloor>log 2 \<bar>x\<bar>\<rfloor>;
                ulp = 2 powr of_int (e - int prec + 1)
            in of_int (round_half_even (x / ulp)) * ulp))"

text \<open>\<open>numpy.float32\<close> has 24 significant bits, \<open>numpy.float64\<close> and Python's \<open>float\<close> 53.\<close>

definition binary32 :: "real \<Rightarrow> real" where
  "binary32 = round_binary 24"

definition binary64 :: "real \<Rightarrow> real" where
  "binary64 = round_binary 53"

text \<open>
  What the properties below need of a rounding function: it is monotone on the
  non-negative numbers and leaves 1/2, 1, 50 and 100 as they are.
\<close>

definition float_rounding :: "(real \<Rightarrow> real) \<Rightarrow> bool" where
  "float_rounding fl =
     ((\<forall>x y. 0 \<le> x \<and> x \<le> y \<longrightarrow> fl x \<le> fl y)
      \<and> fl (1 / 2) = 1 / 2 \<and> fl 1 = 1 \<and> fl 50 = 50 \<and> fl 100 = 100)"

subsection \<open>Decision and confidence (\<^verbatim>\<open>api/predict.py\<close> 139--140, \<^verbatim>\<open>create_ml_api.py\<close> 151--152)\<close>

text \<open>Python's \<open>int(x)\<close> on a float: truncation towards zero.\<close>

definition py_int :: "real \<Rightarrow> int" where
  "py_int x = (if 0 \<le> x then \<lfloor>x\<rfloor> else \<lceil>x\<rceil>)"

record health_prediction =
  isHealthy :: bool
  confidencePercent :: int

text \<open>
  \<open>prediction\<close> is the \<open>numpy.float32\<close> scalar the model returned. The comparison with
  \<open>0.5\<close> is exact. The subtraction \<open>1 - prediction\<close> and the product with \<open>100\<close> are
  floating-point operations: each yields the exact result rounded by \<open>fl\<close>, which is
  \<open>binary32\<close> where NumPy keeps a \<open>float32\<close> scalar combined with a Python integer in
  \<open>float32\<close> (NumPy 2), and \<open>binary64\<close> where it promotes to \<open>float64\<close> (older NumPy).
\<close>

definition process_results :: "(real \<Rightarrow> real) \<Rightarrow> real \<Rightarrow> health_prediction" where
  "process_results fl prediction =
     (let is_healthy = (prediction > 0.5);
          confidence =
            py_int (fl ((if is_healthy then prediction else fl (1 - prediction)) * 100))
      in \<lparr>isHealthy = is_healthy, confidencePercent = confidence\<rparr>)"

text \<open>
  The confidence as the specification words it:
  \<open>round(100 * (probability if isHealthy else 1 - probability))\<close>, clamped to \<open>[0, 100]\<close>.
\<close>

definition spec_confidence :: "real \<Rightarrow> int" where
  "spec_confidence p = max 0 (min 100 (round (100 * (if p > 0.5 then p else 1 - p))))"

subsection \<open>Recommendation generator\<close>

text \<open>
  Truthiness of an optional string (\<open>if crop_type\<close>): \<open>None\<close> and the empty string are
  false. \<open>crop_type or d\<close> is \<open>crop_type\<close> when it is true and \<open>d\<close> otherwise.
\<close>

definition truthy :: "string option \<Rightarrow> bool" where
  "truthy crop_type = (case crop_type of None \<Rightarrow> False | Some s \<Rightarrow> s \<noteq> [])"

definition the_str :: "string option \<Rightarrow> string" where
  "the_str crop_type = (case crop_type of None \<Rightarrow> [] | Some s \<Rightarrow> s)"

definition py_or :: "string option \<Rightarrow> string \<Rightarrow> string" where
  "py_or crop_type d = (if truthy crop_type then the_str crop_type else d)"

text \<open>\<^verbatim>\<open>api/predict.py\<close>, \<open>get_crop_recommendations\<close>.\<close>

definition get_crop_recommendations :: "bool \<Rightarrow> string option \<Rightarrow> string" where
  "get_crop_recommendations is_healthy crop_type =
     (let crop = (if truthy crop_type then lower (the_str crop_type) else ''plant'') in
      if is_healthy then
        (let recommendations =
               ''Your '' @ py_or crop_type ''plant'' @
               '' appears healthy! Continue with current care routine. '';
             recommendations =
               (if py_in ''palak'' crop \<or> py_in ''keerai'' crop \<or> py_in ''spinach'' crop then
                  recommendations @
                  ''Leafy greens benefit from regular harvesting to encourage new growth. Maintain pH 6.0-6.5 and ensure adequate nitrogen. ''
                else if py_in ''tomato'' crop then
                  recommendations @
                  ''Monitor for early blight and ensure good air circulation. Support heavy fruit branches. ''
                else if py_in ''strawberry'' crop then
                  recommendations @
                  ''Watch for powdery mildew and ensure good drainage. Remove runners for better fruit production. ''
                else if py_in ''pepper'' crop then
                  recommendations @
                  ''Maintain consistent moisture and watch for bacterial spot. Ensure adequate calcium. ''
                else recommendations);
             recommendations =
               recommendations @
               ''Monitor regularly for any changes in leaf color or texture. Check for pests weekly as prevention.''
         in recommendations)
      else
        (let recommendations =
               py_or crop_type ''Plant'' @ '' shows signs of pest or disease. Immediate actions: '';
             recommendations =
               recommendations @
               ''1) Isolate the plant to prevent spread, 2) Carefully inspect leaves and stems for pests, '';
             recommendations =
               (if py_in ''palak'' crop \<or> py_in ''keerai'' crop \<or> py_in ''spinach'' crop then
                  recommendations @
                  ''3) Check for aphids and leaf miners (common in leafy greens), 4) Ensure proper air circulation to prevent downy mildew, ''
                else if py_in ''tomato'' crop then
                  recommendations @
                  ''3) Check for whiteflies, aphids, and early blight, 4) Remove affected leaves immediately, ''
                else if py_in ''strawberry'' crop then
                  recommendations @
                  ''3) Look for spider mites and powdery mildew, 4) Improve air circulation and reduce humidity, ''
                else if py_in ''pepper'' crop then
                  recommendations @
                  ''3) Check for thrips and bacterial spot, 4) Ensure good drainage and avoid overhead watering, ''
                else
                  recommendations @
                  ''3) Check root system for rot or discoloration, 4) Adjust nutrient solution pH and concentration, '');
             recommendations =
               recommendations @
               ''5) Consider applying organic treatment like neem oil, 6) Monitor closely for 48-72 hours and adjust care as needed.''
         in recommendations))"

text \<open>\<^verbatim>\<open>create_ml_api.py\<close>, \<open>get_crop_specific_recommendations\<close>: the same text, line by line.\<close>

definition get_crop_specific_recommendations :: "bool \<Rightarrow> string option \<Rightarrow> string" where
  "get_crop_specific_recommendations is_healthy crop_type =
     (let crop = (if truthy crop_type then lower (the_str crop_type) else ''plant'') in
      if is_healthy then
        (let recommendations =
               ''Your '' @ py_or crop_type ''plant'' @
               '' appears healthy! Continue with current care routine. '';
             recommendations =
               (if py_in ''palak'' crop \<or> py_in ''keerai'' crop \<or> py_in ''spinach'' crop then
                  recommendations @
                  ''Leafy greens benefit from regular harvesting to encourage new growth. Maintain pH 6.0-6.5 and ensure adequate nitrogen. ''
                else if py_in ''tomato'' crop then
                  recommendations @
                  ''Monitor for early blight and ensure good air circulation. Support heavy fruit branches. ''
                else if py_in ''strawberry'' crop then
                  recommendations @
                  ''Watch for powdery mildew and ensure good drainage. Remove runners for better fruit production. ''
                else if py_in ''pepper'' crop then
                  recommendations @
                  ''Maintain consistent moisture and watch for bacterial spot. Ensure adequate calcium. ''
                else recommendations);
             recommendations =
               recommendations @
               ''Monitor regularly for any changes in leaf color or texture. Check for pests weekly as prevention.''
         in recommendations)
      else
        (let recommendations =
               py_or crop_type ''Plant'' @ '' shows signs of pest or disease. Immediate actions: '';
             recommendations =
               recommendations @
               ''1) Isolate the plant to prevent spread, 2) Carefully inspect leaves and stems for pests, '';
             recommendations =
               (if py_in ''palak'' crop \<or> py_in ''keerai'' crop \<or> py_in ''spinach'' crop then
                  recommendations @
                  ''3) Check for aphids and leaf miners (common in leafy greens), 4) Ensure proper air circulation to prevent downy mildew, ''
                else if py_in ''tomato'' crop then
                  recommendations @
                  ''3) Check for whiteflies, aphids, and early blight, 4) Remove affected leaves immediately, ''
                else if py_in ''strawberry'' crop then
                  recommendations @
                  ''3) Look for spider mites and powdery mildew, 4) Improve air circulation and reduce humidity, ''
                else if py_in ''pepper'' crop then
                  recommendations @
                  ''3) Check for thrips and bacterial spot, 4) Ensure good drainage and avoid overhead watering, ''
                else
                  recommendations @
                  ''3) Check root system for rot or discoloration, 4) Adjust nutrient solution pH and concentration, '');
             recommendations =
               recommendations @
               ''5) Consider applying organic treatment like neem oil, 6) Monitor closely for 48-72 hours and adjust care as needed.''
         in recommendations))"

subsection \<open>Image preprocessing (\<open>preprocess_image\<close> in both API modules)\<close>

text \<open>
  \<open>base64.b64decode\<close>, \<open>Image.open\<close>, \<open>convert('RGB')\<close>, \<open>resize((224, 224))\<close> and the
  division by \<open>255.0\<close> are library code: together they are a parameter that maps the
  base64 text to the tensor, or to the message of the exception one of them raised.
\<close>

type_synonym decoder = "string \<Rightarrow> string + image"

text \<open>
  \<open>image_data.split(',')[1]\<close>: the text between the first comma and the next one (or the
  end). Without a comma the list has one element and the index raises \<open>IndexError\<close>.
\<close>

definition split_comma_1 :: "string \<Rightarrow> string option" where
  "split_comma_1 s =
     (case dropWhile (\<lambda>c. c \<noteq> CHR '','') s of
        [] \<Rightarrow> None
      | c # rest \<Rightarrow> Some (takeWhile (\<lambda>c. c \<noteq> CHR '','') rest))"

text \<open>The body of the \<open>try\<close> block, the same in both modules; \<open>Inl\<close> is the exception's text.\<close>

definition preprocess_body :: "decoder \<Rightarrow> string \<Rightarrow> string + image" where
  "preprocess_body decode image_data =
     (if startswith image_data ''data:image'' then
        (case split_comma_1 image_data of
           None \<Rightarrow> Inl ''list index out of range''
         | Some image_data \<Rightarrow> decode image_data)
      else decode image_data)"

datatype exn = Exception string

fun str :: "exn \<Rightarrow> string" where
  "str (Exception message) = message"

text \<open>\<^verbatim>\<open>api/predict.py\<close>: any exception is raised again as a plain \<open>Exception\<close>.\<close>

definition predict_preprocess_image :: "decoder \<Rightarrow> string \<Rightarrow> exn + image" where
  "predict_preprocess_image decode image_data =
     (case preprocess_body decode image_data of
        Inl e \<Rightarrow> Inl (Exception (''Image preprocessing failed: '' @ e))
      | Inr img_array \<Rightarrow> Inr img_array)"

text \<open>\<^verbatim>\<open>create_ml_api.py\<close>: any exception is printed and \<open>None\<close> is returned.\<close>

definition ml_api_preprocess_image :: "decoder \<Rightarrow> string \<Rightarrow> image option" where
  "ml_api_preprocess_image decode image_data =
     (case preprocess_body decode image_data of
        Inl e \<Rightarrow> None
      | Inr img_array \<Rightarrow> Some img_array)"

subsection \<open>The prediction endpoints\<close>

text \<open>
  The parsed JSON body of a request: the value under \<open>'image'\<close> and the value under
  \<open>'cropType'\<close>, each absent or a string.
\<close>

record request =
  req_image :: "string option"
  req_cropType :: "string option"

text \<open>
  The result dictionary. The \<open>interpretation\<close> text, which prints the float with six
  decimals, is left out.
\<close>

record model_info =
  raw_prediction_value :: real
  model_threshold :: real
  model_type :: string
  crop_type_echo :: string

record result =
  prediction_text :: string
  confidence :: int
  is_healthy :: bool
  recommendations :: string
  info :: model_info

text \<open>
  Serialising the result dictionary (\<open>json.dumps\<close> in \<^verbatim>\<open>api/predict.py\<close>, \<open>jsonify\<close> in
  \<^verbatim>\<open>create_ml_api.py\<close>). The value under \<open>'is_healthy'\<close> is the \<open>numpy.bool_\<close> that
  comparing a \<open>numpy.float32\<close> with \<open>0.5\<close> yields, never a Python \<open>bool\<close>, and both
  serialisers reject that type with a \<open>TypeError\<close>. The text is the one of NumPy 2,
  where the type is named \<open>bool\<close>; older versions name it \<open>bool_\<close>.
\<close>

definition json_dumps :: "result \<Rightarrow> string + result" where
  "json_dumps result = Inl ''Object of type bool is not JSON serializable''"

text \<open>
  What is written to the client: a status with the result dictionary, with the error
  object of \<^verbatim>\<open>api/predict.py\<close> (\<open>error\<close>, \<open>code\<close>), with the error object of
  \<^verbatim>\<open>create_ml_api.py\<close> (\<open>error\<close>, \<open>message\<close>), or with the headers only.
\<close>

datatype body =
    Result_body result
  | Error_body string nat
  | Json_error string string
  | Headers_only

datatype response = Response (status: nat) (body: body)

text \<open>\<open>model.predict(img_array, verbose=0)[0][0]\<close>: the scalar, or the raised exception's text.\<close>

type_synonym keras_model = "image \<Rightarrow> string + real"

text \<open>
  \<^verbatim>\<open>api/predict.py\<close>, \<open>load_model\<close>. The file system is the argument: \<open>None\<close> when none of
  the four paths exists, otherwise what \<open>tf.keras.models.load_model\<close> gave.
\<close>

definition load_model :: "(string + keras_model) option \<Rightarrow> exn + keras_model" where
  "load_model artifact =
     (case artifact of
        None \<Rightarrow> Inl (Exception ''Model file new_plant_health_classifier.h5 not found'')
      | Some (Inl e) \<Rightarrow> Inl (Exception (''Failed to load model: '' @ e))
      | Some (Inr model) \<Rightarrow> Inr model)"

definition send_error_response :: "nat \<Rightarrow> string \<Rightarrow> response" where
  "send_error_response code message = Response code (Error_body message code)"

text \<open>
  \<^verbatim>\<open>api/predict.py\<close>, \<open>handler.do_POST\<close>. The argument \<open>parsed\<close> is the outcome of lines
  117--119 (reading \<open>Content-Length\<close> and the body, \<open>json.loads\<close>): the dictionary, or the
  text of the exception raised. The value is the list of responses the handler writes,
  in order. Every exception ends in \<open>send_error_response(500, str(e))\<close>. On the path
  where a prediction is made, the status 200 and the headers are written (lines
  161--166) before \<open>json.dumps(result)\<close> is evaluated on line 168 and raises.
\<close>

definition do_POST ::
  "(real \<Rightarrow> real) \<Rightarrow> decoder \<Rightarrow> (string + keras_model) option \<Rightarrow> string + request
     \<Rightarrow> response list" where
  "do_POST fl decode artifact parsed =
     (case parsed of
        Inl e \<Rightarrow> [send_error_response 500 e]
      | Inr data \<Rightarrow>
     (case req_image data of
        None \<Rightarrow> [send_error_response 400 ''No image data provided'']
      | Some image_data \<Rightarrow>
          (let crop_type = (case req_cropType data of None \<Rightarrow> ''Unknown Crop'' | Some c \<Rightarrow> c) in
           case load_model artifact of
             Inl e \<Rightarrow> [send_error_response 500 (str e)]
           | Inr model \<Rightarrow>
               (case predict_preprocess_image decode image_data of
                  Inl e \<Rightarrow> [send_error_response 500 (str e)]
                | Inr img_array \<Rightarrow>
                    (case model img_array of
                       Inl e \<Rightarrow> [send_error_response 500 e]
                     | Inr prediction \<Rightarrow>
                         (let hp = process_results fl prediction;
                              recommendations =
                                get_crop_recommendations (isHealthy hp) (Some crop_type);
                              result =
                                \<lparr>prediction_text =
                                   (if isHealthy hp then ''Healthy Plant''
                                    else ''Affected Plant (Pest/Disease detected)''),
                                 confidence = confidencePercent hp,
                                 is_healthy = isHealthy hp,
                                 recommendations = recommendations,
                                 info = \<lparr>raw_prediction_value = prediction,
                                          model_threshold = 0.5,
                                          model_type = ''Real H5 Model (Vercel Serverless)'',
                                          crop_type_echo = crop_type\<rparr>\<rparr>
                          in case json_dumps result of
                               Inl e \<Rightarrow> [Response 200 Headers_only, send_error_response 500 e]
                             | Inr sent \<Rightarrow> [Response 200 (Result_body sent)]))))))"

text \<open>
  \<^verbatim>\<open>create_ml_api.py\<close>, \<open>predict\<close>. The global \<open>model\<close> is an argument (\<open>None\<close> when it
  was never loaded). The argument \<open>got\<close> is the outcome of \<open>request.get_json()\<close>: the text
  of the exception it raised (no JSON content type, malformed body), which the blanket
  \<open>except\<close> turns into the 500 response, or the parsed value, \<open>None\<close> for the JSON
  \<open>null\<close>. The value is the response returned.
\<close>

definition predict ::
  "(real \<Rightarrow> real) \<Rightarrow> decoder \<Rightarrow> keras_model option \<Rightarrow> string + request option
     \<Rightarrow> response" where
  "predict fl decode model got =
     (case model of
        None \<Rightarrow> Response 500 (Json_error ''Model not loaded'' ''H5 model failed to load'')
      | Some model \<Rightarrow>
     (case got of
        Inl e \<Rightarrow> Response 500 (Json_error ''Prediction failed'' e)
      | Inr data \<Rightarrow>
          (case (case data of None \<Rightarrow> None | Some d \<Rightarrow> map_option (\<lambda>i. (d, i)) (req_image d)) of
             None \<Rightarrow>
               Response 400 (Json_error ''No image data provided''
                 ''Please provide image data in base64 format'')
           | Some (d, image_data) \<Rightarrow>
               (let crop_type = (case req_cropType d of None \<Rightarrow> ''Unknown Crop'' | Some c \<Rightarrow> c) in
                case ml_api_preprocess_image decode image_data of
                  None \<Rightarrow>
                    Response 400 (Json_error ''Image preprocessing failed''
                      ''Could not process the provided image'')
                | Some img_array \<Rightarrow>
                    (case model img_array of
                       Inl e \<Rightarrow> Response 500 (Json_error ''Prediction failed'' e)
                     | Inr prediction \<Rightarrow>
                         (let hp = process_results fl prediction;
                              recommendations =
                                get_crop_specific_recommendations (isHealthy hp) (Some crop_type);
                              result =
                                \<lparr>prediction_text =
                                   (if isHealthy hp then ''Healthy Plant''
                                    else ''Affected Plant (Pest/Disease detected)''),
                                 confidence = confidencePercent hp,
                                 is_healthy = isHealthy hp,
                                 recommendations = recommendations,
                                 info = \<lparr>raw_prediction_value = prediction,
                                          model_threshold = 0.5,
                                          model_type = ''Real H5 Model (new_plant_health_classifier)'',
                                          crop_type_echo = crop_type\<rparr>\<rparr>
                          in case json_dumps result of
                               Inl e \<Rightarrow> Response 500 (Json_error ''Prediction failed'' e)
                             | Inr sent \<Rightarrow> Response 200 (Result_body sent)))))))"

text \<open>Two stand-ins for the external parts, used in the concrete runs below.\<close>

definition rejecting_decoder :: decoder where
  "rejecting_decoder image_data = Inl ''cannot identify image file''"

definition constant_model :: "real \<Rightarrow> keras_model" where
  "constant_model p img_array = Inr p"

subsection \<open>The specification's wording of the scorer and of the bias table\<close>

text \<open>
  Section 4.4 of the specification: a first-match primary tier, two adjustments that
  apply independently of each other, and a tenth of the crop bias.
\<close>

definition spec_primary_tier :: "features \<Rightarrow> real" where
  "spec_primary_tier f =
     (if brightness f > 0.6 \<and> green_dominance f > 0.35 \<and> texture_complexity f > 0.02 then 0.95
      else if brightness f > 0.4 \<and> green_dominance f > 0.3 then 0.75
      else if brightness f < 0.3 \<or> green_dominance f < 0.25 then 0.15
      else 0.45)"

definition spec_contrast_adjustment :: "features \<Rightarrow> real" where
  "spec_contrast_adjustment f = (if 0.2 < contrast f \<and> contrast f < 0.4 then 0.05 else 0)"

definition spec_balance_adjustment :: "features \<Rightarrow> real" where
  "spec_balance_adjustment f = (if color_balance f > 0.3 then - 0.1 else 0)"

definition spec_pre_jitter_score :: "features \<Rightarrow> real \<Rightarrow> real" where
  "spec_pre_jitter_score f cropBias =
     spec_primary_tier f + spec_contrast_adjustment f + spec_balance_adjustment f
       + cropBias * 0.1"

text \<open>
  Section 4.3: the rules in priority order, each a keyword group with its bias; the
  first rule with a keyword that occurs in the case-folded label wins.
\<close>

definition bias_rules :: "(string list \<times> real) list" where
  "bias_rules =
     [([''palak'', ''keerai'', ''spinach''], 0.1),
      ([''arai'', ''siru''], 0.1),
      ([''tomato''], - 0.5),
      ([''pepper''], - 0.3),
      ([''strawberry''], - 0.8),
      ([''corn'', ''maize''], 0.3)]"

definition rule_matches :: "string list \<Rightarrow> string \<Rightarrow> bool" where
  "rule_matches keywords label = list_ex (\<lambda>k. py_in k label) keywords"

fun first_match :: "(string list \<times> real) list \<Rightarrow> string \<Rightarrow> (string list \<times> real) option" where
  "first_match [] label = None"
| "first_match ((keywords, bias) # rules) label =
     (if rule_matches keywords label then Some (keywords, bias) else first_match rules label)"

definition spec_lookup :: "string option \<Rightarrow> real" where
  "spec_lookup cropLabel =
     (case cropLabel of
        None \<Rightarrow> 0
      | Some label \<Rightarrow>
          if label = [] then 0
          else (case first_match bias_rules (lower label) of
                  None \<Rightarrow> 0
                | Some (keywords, bias) \<Rightarrow> bias))"

section \<open>Properties\<close>

subsection \<open>Strings\<close>

lemma startswith_iff: "startswith s p \<longleftrightarrow> (\<exists>ys. s = p @ ys)"
  by (induction s p rule: startswith.induct) auto

text \<open>\<open>py_in\<close> is the substring test: some text before, the pattern, some text after.\<close>

lemma py_in_iff: "py_in p s \<longleftrightarrow> (\<exists>xs ys. s = xs @ p @ ys)"
proof (induction s)
  case Nil
  then show ?case by auto
next
  case (Cons x s)
  show ?case
  proof
    assume "py_in p (x # s)"
    then consider "startswith (x # s) p" | "py_in p s" by auto
    then show "\<exists>xs ys. x # s = xs @ p @ ys"
    proof cases
      case 1
      then obtain ys where "x # s = p @ ys" using startswith_iff by blast
      then have "x # s = [] @ p @ ys" by simp
      then show ?thesis by blast
    next
      case 2
      then obtain xs ys where "s = xs @ p @ ys" using Cons.IH by blast
      then have "x # s = (x # xs) @ p @ ys" by simp
      then show ?thesis by blast
    qed
  next
    assume "\<exists>xs ys. x # s = xs @ p @ ys"
    then obtain xs ys where e: "x # s = xs @ p @ ys" by blast
    show "py_in p (x # s)"
    proof (cases xs)
      case Nil
      with e have "startswith (x # s) p" using startswith_iff by auto
      then show ?thesis by simp
    next
      case (Cons a as)
      with e have "s = as @ p @ ys" by simp
      then have "py_in p s" using Cons.IH by blast
      then show ?thesis by simp
    qed
  qed
qed

lemma lower_arai_keerai: "lower ''arai keerai'' = ''arai keerai''"
  by (simp add: lower_def lower_char_def)

lemma lower_tomato: "lower ''tomato'' = ''tomato''"
  by (simp add: lower_def lower_char_def)

lemma lower_Palak: "lower ''Palak'' = ''palak''"
  by code_simp

lemma lower_Tomato: "lower ''Tomato'' = ''tomato''"
  by code_simp

subsection \<open>The heuristic scorer\<close>

text \<open>
  Claim C1. For every feature vector and crop label, the score before the random draw
  is the base of the first matching primary tier (0.95, else 0.75, else 0.15, else
  0.45), plus 0.05 when the contrast lies strictly between 0.2 and 0.4, minus 0.1 when
  the colour balance exceeds 0.3, plus a tenth of the crop bias.
\<close>

theorem health_score_branch_structure:
  "health_score f crop_type = spec_pre_jitter_score f (get_crop_adjustment crop_type)"
  by (simp add: health_score_def spec_pre_jitter_score_def spec_primary_tier_def
      spec_contrast_adjustment_def spec_balance_adjustment_def Let_def)

text \<open>
  Claim C6. For every feature vector, crop label and random draw, the scorer's result
  lies in \<open>[0.001, 0.999]\<close>; it is neither 0 nor 1.
\<close>

theorem scorer_output_clamped:
  "0.001 \<le> simulate_web_model_prediction (Some f) crop_type jitter
   \<and> simulate_web_model_prediction (Some f) crop_type jitter \<le> 0.999
   \<and> simulate_web_model_prediction (Some f) crop_type jitter \<noteq> 0
   \<and> simulate_web_model_prediction (Some f) crop_type jitter \<noteq> 1"
  by (simp add: simulate_web_model_prediction_def Let_def max_def min_def)

text \<open>
  Claim C10. Called with \<open>None\<close> in place of the feature vector, the scorer returns
  exactly 0, whatever the crop label and the draw: a value below the clamp's lower
  bound 0.001.
\<close>

theorem scorer_none_features_zero:
  "simulate_web_model_prediction None crop_type jitter = 0
   \<and> simulate_web_model_prediction None crop_type jitter < 0.001"
  by (simp add: simulate_web_model_prediction_def)

subsection \<open>The crop bias table\<close>

text \<open>
  Claim C5. The bias of a label is the bias of the first rule, in the priority order
  palak/keerai/spinach, arai/siru, tomato, pepper, strawberry, corn/maize, one of whose
  keywords occurs in the lower-cased label, and 0 when no rule matches; \<open>None\<close> and the
  empty label give 0; for the label "arai keerai" the first rule is chosen although the
  second one matches as well.
\<close>

theorem crop_bias_first_match:
  "get_crop_adjustment crop_type = spec_lookup crop_type
   \<and> get_crop_adjustment None = 0
   \<and> get_crop_adjustment (Some []) = 0
   \<and> first_match bias_rules (lower ''arai keerai'')
       = Some ([''palak'', ''keerai'', ''spinach''], 0.1)
   \<and> rule_matches [''arai'', ''siru''] (lower ''arai keerai'')
   \<and> get_crop_adjustment (Some ''arai keerai'') = 0.1"
proof -
  have "get_crop_adjustment crop_type = spec_lookup crop_type"
    by (simp add: get_crop_adjustment_def spec_lookup_def bias_rules_def rule_matches_def
        Let_def split: option.splits)
  moreover have "get_crop_adjustment None = 0" "get_crop_adjustment (Some []) = 0"
    by (simp_all add: get_crop_adjustment_def)
  moreover have "first_match bias_rules (lower ''arai keerai'')
       = Some ([''palak'', ''keerai'', ''spinach''], 0.1)"
    by (simp add: lower_arai_keerai bias_rules_def rule_matches_def)
  moreover have "rule_matches [''arai'', ''siru''] (lower ''arai keerai'')"
    by (simp add: lower_arai_keerai rule_matches_def)
  moreover have "get_crop_adjustment (Some ''arai keerai'') = 0.1"
    by (simp add: get_crop_adjustment_def lower_arai_keerai Let_def)
  ultimately show ?thesis by simp
qed

subsection \<open>Floating-point rounding\<close>

lemma round_half_even_int [simp]: "round_half_even (of_int n) = n"
  by (simp add: round_half_even_def)

lemma round_half_even_cases: "round_half_even x = \<lfloor>x\<rfloor> \<or> round_half_even x = \<lfloor>x\<rfloor> + 1"
  by (simp add: round_half_even_def Let_def)

lemma round_half_even_mono:
  assumes "x \<le> y"
  shows "round_half_even x \<le> round_half_even y"
proof -
  have fl: "\<lfloor>x\<rfloor> \<le> \<lfloor>y\<rfloor>" using assms by (rule floor_mono)
  show ?thesis
  proof (cases "\<lfloor>x\<rfloor> < \<lfloor>y\<rfloor>")
    case True
    have "round_half_even x \<le> \<lfloor>x\<rfloor> + 1" using round_half_even_cases [of x] by auto
    also have "\<dots> \<le> \<lfloor>y\<rfloor>" using True by simp
    also have "\<dots> \<le> round_half_even y" using round_half_even_cases [of y] by auto
    finally show ?thesis .
  next
    case False
    with fl have eq: "\<lfloor>x\<rfloor> = \<lfloor>y\<rfloor>" by simp
    show ?thesis
      using assms by (auto simp: round_half_even_def Let_def eq)
  qed
qed

lemma round_half_even_ge: "of_int n \<le> x \<Longrightarrow> n \<le> round_half_even x"
  using round_half_even_mono [of "of_int n" x] by simp

lemma round_half_even_le: "x \<le> of_int n \<Longrightarrow> round_half_even x \<le> n"
  using round_half_even_mono [of x "of_int n"] by simp


lemma exponent_bounds:
  assumes "0 < x"
  shows "2 powr of_int \<lfloor>log 2 x\<rfloor> \<le> x" and "x < 2 powr (of_int \<lfloor>log 2 x\<rfloor> + 1)"
  using floor_log_eq_powr_iff [of x 2 "\<lfloor>log 2 x\<rfloor>"] assms by simp_all

lemma exponent_eq:
  assumes "0 < x" and "2 powr of_int k \<le> x" and "x < 2 powr (of_int k + 1)"
  shows "\<lfloor>log 2 x\<rfloor> = k"
  using floor_log_eq_powr_iff [of x 2 k] assms by simp

lemma ulp_scale:
  assumes "0 < prec"
  shows "of_int (2 ^ (prec - 1)) * (2::real) powr of_int (e - int prec + 1) = 2 powr of_int e"
    and "of_int (2 ^ prec) * (2::real) powr of_int (e - int prec + 1) = 2 powr (of_int e + 1)"
proof -
  have a: "(of_int (2 ^ (prec - 1)) :: real) = 2 powr real (prec - 1)"
    by (simp add: powr_realpow)
  have b: "(of_int (2 ^ prec) :: real) = 2 powr real prec"
    by (simp add: powr_realpow)
  have c: "real (prec - 1) + of_int (e - int prec + 1) = of_int e"
    using assms by simp
  have d: "real prec + of_int (e - int prec + 1) = of_int e + 1"
    by simp
  show "of_int (2 ^ (prec - 1)) * (2::real) powr of_int (e - int prec + 1) = 2 powr of_int e"
    unfolding a powr_add [symmetric] c ..
  show "of_int (2 ^ prec) * (2::real) powr of_int (e - int prec + 1) = 2 powr (of_int e + 1)"
    unfolding b powr_add [symmetric] d ..
qed

lemma round_binary_pos:
  assumes "0 < x"
  shows "round_binary prec x =
     of_int (round_half_even (x / 2 powr of_int (\<lfloor>log 2 x\<rfloor> - int prec + 1)))
       * 2 powr of_int (\<lfloor>log 2 x\<rfloor> - int prec + 1)"
  using assms by (simp add: round_binary_def Let_def)

lemma round_binary_bounds:
  assumes "0 < x" and "0 < prec"
  shows "2 powr of_int \<lfloor>log 2 x\<rfloor> \<le> round_binary prec x"
    and "round_binary prec x \<le> 2 powr (of_int \<lfloor>log 2 x\<rfloor> + 1)"
proof -
  define e where "e = \<lfloor>log 2 x\<rfloor>"
  define u :: real where "u = 2 powr of_int (e - int prec + 1)"
  have u: "0 < u" by (simp add: u_def)
  have lo: "of_int (2 ^ (prec - 1)) * u = 2 powr of_int e"
    and hi: "of_int (2 ^ prec) * u = 2 powr (of_int e + 1)"
    unfolding u_def using ulp_scale [OF assms(2)] by auto
  have "of_int (2 ^ (prec - 1)) * u \<le> x" "x \<le> of_int (2 ^ prec) * u"
    using exponent_bounds [OF assms(1)] lo hi by (simp_all add: e_def)
  then have s: "of_int (2 ^ (prec - 1)) \<le> x / u" "x / u \<le> of_int (2 ^ prec)"
    using u by (simp_all add: pos_le_divide_eq pos_divide_le_eq)
  have r: "2 ^ (prec - 1) \<le> round_half_even (x / u)" "round_half_even (x / u) \<le> 2 ^ prec"
    using s by (auto intro: round_half_even_ge round_half_even_le)
  have rb: "round_binary prec x = of_int (round_half_even (x / u)) * u"
    using round_binary_pos [OF assms(1)] by (simp add: u_def e_def)
  have "of_int (2 ^ (prec - 1)) * u \<le> of_int (round_half_even (x / u)) * u"
    using r(1) u by (intro mult_right_mono) (simp_all add: of_int_le_iff [symmetric] del: of_int_le_iff)
  then show "2 powr of_int \<lfloor>log 2 x\<rfloor> \<le> round_binary prec x"
    using lo rb by (simp add: e_def)
  have "of_int (round_half_even (x / u)) * u \<le> of_int (2 ^ prec) * u"
    using r(2) u by (intro mult_right_mono) (simp_all add: of_int_le_iff [symmetric] del: of_int_le_iff)
  then show "round_binary prec x \<le> 2 powr (of_int \<lfloor>log 2 x\<rfloor> + 1)"
    using hi rb by (simp add: e_def)
qed

lemma round_binary_mono:
  assumes "0 \<le> x" and "x \<le> y" and "0 < prec"
  shows "round_binary prec x \<le> round_binary prec y"
proof (cases "x = 0")
  case True
  show ?thesis
  proof (cases "y = 0")
    case True
    with \<open>x = 0\<close> show ?thesis by simp
  next
    case False
    with assms True have "0 < y" by simp
    from round_binary_bounds(1) [OF this assms(3)]
    have "0 \<le> round_binary prec y"
      by (rule order_trans [rotated]) simp
    with True show ?thesis by (simp add: round_binary_def)
  qed
next
  case False
  with assms have x: "0 < x" and y: "0 < y" by simp_all
  have e: "\<lfloor>log 2 x\<rfloor> \<le> \<lfloor>log 2 y\<rfloor>"
    using x y assms(2) by (intro floor_mono) simp
  show ?thesis
  proof (cases "\<lfloor>log 2 x\<rfloor> = \<lfloor>log 2 y\<rfloor>")
    case True
    define u :: real where "u = 2 powr of_int (\<lfloor>log 2 y\<rfloor> - int prec + 1)"
    have u: "0 < u" by (simp add: u_def)
    have "x / u \<le> y / u" using assms(2) u by (simp add: divide_right_mono)
    then have "round_half_even (x / u) \<le> round_half_even (y / u)" by (rule round_half_even_mono)
    then have "of_int (round_half_even (x / u)) * u \<le> of_int (round_half_even (y / u)) * u"
      using u by (intro mult_right_mono) simp_all
    then show ?thesis
      using round_binary_pos [OF x, of prec] round_binary_pos [OF y, of prec] True
      by (simp add: u_def)
  next
    case False
    with e have lt: "\<lfloor>log 2 x\<rfloor> + 1 \<le> \<lfloor>log 2 y\<rfloor>" by simp
    have "round_binary prec x \<le> 2 powr (of_int \<lfloor>log 2 x\<rfloor> + 1)"
      using x assms(3) by (rule round_binary_bounds(2))
    also have "\<dots> \<le> 2 powr of_int \<lfloor>log 2 y\<rfloor>"
    proof -
      have "(of_int \<lfloor>log 2 x\<rfloor> + 1 :: real) \<le> of_int \<lfloor>log 2 y\<rfloor>"
        using lt by (metis of_int_1 of_int_add of_int_le_iff)
      then show ?thesis by (simp add: powr_mono)
    qed
    also have "\<dots> \<le> round_binary prec y"
      using y assms(3) by (rule round_binary_bounds(1))
    finally show ?thesis .
  qed
qed


lemma round_binary_eval:
  assumes "0 < x" and "2 powr of_int k \<le> x" and "x < 2 powr (of_int k + 1)"
  shows "round_binary prec x =
     of_int (round_half_even (x / 2 powr of_int (k - int prec + 1)))
       * 2 powr of_int (k - int prec + 1)"
  using round_binary_pos [OF assms(1), of prec] exponent_eq [OF assms] by simp

lemma round_binary_exact:
  assumes "0 < x" and "2 powr of_int k \<le> x" and "x < 2 powr (of_int k + 1)"
    and "x / 2 powr of_int (k - int prec + 1) = of_int m"
  shows "round_binary prec x = x"
proof -
  have "round_binary prec x = of_int m * 2 powr of_int (k - int prec + 1)"
    using round_binary_eval [OF assms(1-3), of prec] assms(4) by simp
  also have "\<dots> = x"
    using assms(4) by (simp add: field_simps)
  finally show ?thesis .
qed

lemma binary32_half: "binary32 (1 / 2) = 1 / 2"
  unfolding binary32_def
  by (rule round_binary_exact [where k = "- 1" and m = "2 ^ 23"]) (simp_all add: powr_minus field_simps)

lemma binary32_one: "binary32 1 = 1"
  unfolding binary32_def
  by (rule round_binary_exact [where k = 0 and m = "2 ^ 23"]) (simp_all add: powr_minus field_simps)

lemma binary32_50: "binary32 50 = 50"
  unfolding binary32_def
  by (rule round_binary_exact [where k = 5 and m = "50 * 2 ^ 18"]) (simp_all add: powr_minus field_simps)

lemma binary32_100: "binary32 100 = 100"
  unfolding binary32_def
  by (rule round_binary_exact [where k = 6 and m = "100 * 2 ^ 17"]) (simp_all add: powr_minus field_simps)

lemma float_rounding_binary32: "float_rounding binary32"
  unfolding float_rounding_def
  using binary32_half binary32_one binary32_50 binary32_100
  by (auto simp: binary32_def intro: round_binary_mono)


lemma binary64_half: "binary64 (1 / 2) = 1 / 2"
  unfolding binary64_def
  by (rule round_binary_exact [where k = "- 1" and m = "2 ^ 52"]) (simp_all add: powr_minus field_simps)

lemma binary64_one: "binary64 1 = 1"
  unfolding binary64_def
  by (rule round_binary_exact [where k = 0 and m = "2 ^ 52"]) (simp_all add: powr_minus field_simps)

lemma binary64_50: "binary64 50 = 50"
  unfolding binary64_def
  by (rule round_binary_exact [where k = 5 and m = "50 * 2 ^ 47"]) (simp_all add: powr_minus field_simps)

lemma binary64_100: "binary64 100 = 100"
  unfolding binary64_def
  by (rule round_binary_exact [where k = 6 and m = "100 * 2 ^ 46"]) (simp_all add: powr_minus field_simps)

lemma float_rounding_binary64: "float_rounding binary64"
  unfolding float_rounding_def
  using binary64_half binary64_one binary64_50 binary64_100
  by (auto simp: binary64_def intro: round_binary_mono)

lemma binary32_11_16: "binary32 (11 / 16 * 100) = 275 / 4"
proof -
  have "binary32 (275 / 4) = 275 / 4"
    unfolding binary32_def
    by (rule round_binary_exact [where k = 6 and m = "275 * 2 ^ 15"]) (simp_all add: powr_minus field_simps)
  then show ?thesis by simp
qed

lemma binary32_057: "binary32 (9563013 / 16777216 * 100) = 57"
proof -
  have "binary32 (9563013 / 16777216 * 100) =
      of_int (round_half_even (9563013 / 16777216 * 100 / 2 powr of_int (5 - int 24 + 1)))
       * 2 powr of_int (5 - int 24 + 1)"
    unfolding binary32_def by (rule round_binary_eval) simp_all
  also have "\<dots> = 57"
    by (simp add: powr_minus round_half_even_def Let_def)
  finally show ?thesis .
qed

lemma binary32_tiny: "binary32 (1 - 1 / 10 ^ 20) = 1"
proof -
  have "binary32 (1 - 1 / 10 ^ 20) =
      of_int (round_half_even ((1 - 1 / 10 ^ 20) / 2 powr of_int (- 1 - int 24 + 1)))
       * 2 powr of_int (- 1 - int 24 + 1)"
    unfolding binary32_def by (rule round_binary_eval) (simp_all add: powr_minus)
  also have "\<dots> = 1"
    by (simp add: powr_minus round_half_even_def Let_def)
  finally show ?thesis .
qed

lemma binary64_11_16: "binary64 (11 / 16 * 100) = 275 / 4"
proof -
  have "binary64 (275 / 4) = 275 / 4"
    unfolding binary64_def
    by (rule round_binary_exact [where k = 6 and m = "275 * 2 ^ 44"])
      (simp_all add: powr_minus field_simps)
  then show ?thesis by simp
qed

lemma binary64_tiny: "binary64 (1 - 1 / 10 ^ 20) = 1"
proof -
  have "binary64 (1 - 1 / 10 ^ 20) =
      of_int (round_half_even ((1 - 1 / 10 ^ 20) / 2 powr of_int (- 1 - int 53 + 1)))
       * 2 powr of_int (- 1 - int 53 + 1)"
    unfolding binary64_def by (rule round_binary_eval) (simp_all add: powr_minus)
  also have "\<dots> = 1"
    by (simp add: powr_minus round_half_even_def Let_def)
  finally show ?thesis .
qed

subsection \<open>Decision and confidence\<close>

text \<open>
  Claim C4. The verdict is healthy exactly when the probability is strictly greater
  than 0.5, on the model path (\<open>process_results\<close>, whatever the rounding of the
  arithmetic) and on the heuristic path (\<open>sim_healthy\<close>) alike; the probability 0.5
  itself is classified as affected on both.
\<close>

theorem threshold_strict:
  "isHealthy (process_results fl p) = (p > 0.5)
   \<and> sim_healthy p = (p > 0.5)
   \<and> isHealthy (process_results fl p) = sim_healthy p
   \<and> \<not> isHealthy (process_results fl 0.5)
   \<and> \<not> sim_healthy 0.5"
  by (simp add: process_results_def sim_healthy_def Let_def)

lemma confidence_healthy:
  "1 / 2 < p \<Longrightarrow> confidencePercent (process_results fl p) = py_int (fl (p * 100))"
  by (simp add: process_results_def Let_def)

lemma confidence_affected:
  "p \<le> 1 / 2 \<Longrightarrow>
     confidencePercent (process_results fl p) = py_int (fl (fl (1 - p) * 100))"
  by (simp add: process_results_def Let_def)

text \<open>
  Claim C3, as the specification states it, fails: the code truncates where the
  specification rounds. At the probability 11/16 the product 68.75 is exact in both
  floating-point formats, the code reports 68 and the rounded value is 69.
\<close>

theorem confidence_not_rounded:
  "confidencePercent (process_results binary32 (11 / 16)) = 68
   \<and> confidencePercent (process_results binary64 (11 / 16)) = 68
   \<and> spec_confidence (11 / 16) = 69"
proof -
  have "confidencePercent (process_results binary32 (11 / 16))
          = py_int (binary32 (11 / 16 * 100))"
    by (rule confidence_healthy) simp
  also have "\<dots> = 68"
    unfolding binary32_11_16 by (simp add: py_int_def)
  finally have a: "confidencePercent (process_results binary32 (11 / 16)) = 68" .
  have "confidencePercent (process_results binary64 (11 / 16))
          = py_int (binary64 (11 / 16 * 100))"
    by (rule confidence_healthy) simp
  also have "\<dots> = 68"
    unfolding binary64_11_16 by (simp add: py_int_def)
  finally have b: "confidencePercent (process_results binary64 (11 / 16)) = 68" .
  have c: "spec_confidence (11 / 16) = 69"
    by (simp add: spec_confidence_def round_def)
  from a b c show ?thesis by (intro conjI)
qed

text \<open>
  The confidence follows the floating-point product, not the exact one. For the
  \<open>float32\<close> nearest to 0.57, which is 9563013 / 2^24, the exact product is just below
  57 and the \<open>float32\<close> product is 57; for the probability 10^-20 the difference
  \<open>1 - p\<close> rounds to 1.
\<close>

lemma confidence_float32_057:
  "confidencePercent (process_results binary32 (9563013 / 16777216)) = 57"
proof -
  have "confidencePercent (process_results binary32 (9563013 / 16777216))
          = py_int (binary32 (9563013 / 16777216 * 100))"
    by (rule confidence_healthy) simp
  also have "\<dots> = 57"
    unfolding binary32_057 by (simp add: py_int_def)
  finally show ?thesis .
qed

lemma exact_product_057: "\<lfloor>9563013 / 16777216 * (100 :: real)\<rfloor> = 56"
  by simp

lemma confidence_float32_tiny:
  "confidencePercent (process_results binary32 (1 / 10 ^ 20)) = 100"
proof -
  have "confidencePercent (process_results binary32 (1 / 10 ^ 20))
          = py_int (binary32 (binary32 (1 - 1 / 10 ^ 20) * 100))"
    by (rule confidence_affected) simp
  also have "\<dots> = py_int (binary32 100)"
    unfolding binary32_tiny by simp
  also have "\<dots> = 100"
    unfolding binary32_100 by (simp add: py_int_def)
  finally show ?thesis .
qed

lemma confidence_float64_tiny:
  "confidencePercent (process_results binary64 (1 / 10 ^ 20)) = 100"
proof -
  have "confidencePercent (process_results binary64 (1 / 10 ^ 20))
          = py_int (binary64 (binary64 (1 - 1 / 10 ^ 20) * 100))"
    by (rule confidence_affected) simp
  also have "\<dots> = py_int (binary64 100)"
    unfolding binary64_tiny by simp
  also have "\<dots> = 100"
    unfolding binary64_100 by (simp add: py_int_def)
  finally show ?thesis .
qed

text \<open>
  Claim C3, amended. Let the floating-point operations round monotonically and leave
  1/2, 1, 50 and 100 unchanged, as rounding to nearest does in \<open>float32\<close> and \<open>float64\<close>.
  Then for every probability \<open>p\<close> in \<open>[0, 1]\<close> the confidence is the floating-point
  value of \<open>(p if isHealthy else 1 - p) * 100\<close> truncated to an integer (its floor, the
  value being non-negative), not rounded to the nearest integer; it lies between 50 and
  100, so no clamping takes place.
\<close>

theorem confidence_truncates:
  assumes "float_rounding fl" and "0 \<le> p" and "p \<le> 1"
  shows "confidencePercent (process_results fl p)
           = \<lfloor>fl ((if isHealthy (process_results fl p) then p else fl (1 - p)) * 100)\<rfloor>
         \<and> 50 \<le> confidencePercent (process_results fl p)
         \<and> confidencePercent (process_results fl p) \<le> 100"
proof -
  have mono: "\<And>x y. 0 \<le> x \<Longrightarrow> x \<le> y \<Longrightarrow> fl x \<le> fl y"
    and fixed: "fl (1 / 2) = 1 / 2" "fl 1 = 1" "fl 50 = 50" "fl 100 = 100"
    using assms(1) by (simp_all add: float_rounding_def)
  define q where "q = (if p > 0.5 then p else fl (1 - p))"
  have q: "1 / 2 \<le> q \<and> q \<le> 1"
  proof (cases "p > 0.5")
    case True
    with assms(3) show ?thesis by (simp add: q_def)
  next
    case False
    then have "1 / 2 \<le> 1 - p" by simp
    then have "fl (1 / 2) \<le> fl (1 - p)" by (intro mono) simp_all
    moreover have "fl (1 - p) \<le> fl 1" using assms(2) False by (intro mono) simp_all
    ultimately show ?thesis using False fixed by (simp add: q_def)
  qed
  have "fl 50 \<le> fl (q * 100)" using q by (intro mono) simp_all
  moreover have "fl (q * 100) \<le> fl 100" using q by (intro mono) simp_all
  ultimately have r: "50 \<le> fl (q * 100)" "fl (q * 100) \<le> 100"
    using fixed by simp_all
  have c: "confidencePercent (process_results fl p) = \<lfloor>fl (q * 100)\<rfloor>"
    using r by (simp add: process_results_def py_int_def Let_def q_def)
  have h: "isHealthy (process_results fl p) = (p > 0.5)"
    by (simp add: process_results_def Let_def)
  have "50 \<le> \<lfloor>fl (q * 100)\<rfloor>" "\<lfloor>fl (q * 100)\<rfloor> \<le> 100"
    using r by (simp_all add: le_floor_iff floor_le_iff)
  with c h show ?thesis by (simp add: q_def)
qed

theorem confidence_truncates_witness:
  "float_rounding binary32
   \<and> (0 :: real) \<le> 9563013 / 16777216 \<and> (9563013 / 16777216 :: real) \<le> 1
   \<and> confidencePercent (process_results binary32 (9563013 / 16777216))
       = \<lfloor>binary32 (9563013 / 16777216 * 100)\<rfloor>
   \<and> 50 \<le> confidencePercent (process_results binary32 (9563013 / 16777216))
   \<and> confidencePercent (process_results binary32 (9563013 / 16777216)) \<le> 100
   \<and> confidencePercent (process_results binary32 (9563013 / 16777216)) = 57"
proof -
  have p: "(0 :: real) \<le> 9563013 / 16777216" "(9563013 / 16777216 :: real) \<le> 1"
    by simp_all
  have h: "isHealthy (process_results binary32 (9563013 / 16777216)) = True"
    by (simp add: process_results_def Let_def)
  note t = confidence_truncates [OF float_rounding_binary32 p, unfolded h if_True]
  from t float_rounding_binary32 p confidence_float32_057 show ?thesis by blast
qed

subsection \<open>The recommendation generator\<close>

text \<open>
  Claim C9. The recommendation text is a function of the verdict and the crop label
  alone (both generators have no other argument and are the same function); for an
  affected "Palak" it contains "aphids and leaf miners", for a healthy "Tomato" it
  contains "early blight".
\<close>

theorem recommendation_phrases:
  "get_crop_specific_recommendations = get_crop_recommendations
   \<and> py_in ''aphids and leaf miners'' (get_crop_recommendations False (Some ''Palak''))
   \<and> py_in ''early blight'' (get_crop_recommendations True (Some ''Tomato''))"
proof -
  have "get_crop_specific_recommendations = get_crop_recommendations"
    by (intro ext)
      (simp add: get_crop_recommendations_def get_crop_specific_recommendations_def)
  moreover have
    "py_in ''aphids and leaf miners'' (get_crop_recommendations False (Some ''Palak''))"
    by (simp add: get_crop_recommendations_def truthy_def the_str_def py_or_def lower_Palak)
  moreover have "py_in ''early blight'' (get_crop_recommendations True (Some ''Tomato''))"
    by (simp add: get_crop_recommendations_def truthy_def the_str_def py_or_def lower_Tomato)
  ultimately show ?thesis by simp
qed

subsection \<open>The feature extractor\<close>

text \<open>Means of values in the unit interval stay in the unit interval.\<close>

lemma sum_list_unit_bounds:
  "list_all (\<lambda>x. 0 \<le> x \<and> x \<le> 1) xs \<Longrightarrow> 0 \<le> sum_list xs \<and> sum_list xs \<le> real (length xs)"
  by (induction xs) auto

lemma np_mean_unit:
  assumes "list_all (\<lambda>x. 0 \<le> x \<and> x \<le> 1) xs"
  shows "0 \<le> np_mean xs \<and> np_mean xs \<le> 1"
proof -
  have b: "0 \<le> sum_list xs \<and> sum_list xs \<le> real (length xs)"
    using assms by (rule sum_list_unit_bounds)
  show ?thesis
  proof (cases "xs = []")
    case True
    then show ?thesis by (simp add: np_mean_def)
  next
    case False
    then have "0 < real (length xs)" by simp
    with b show ?thesis by (simp add: np_mean_def)
  qed
qed

lemma unit_pixels:
  "normalized_tensor img \<Longrightarrow> list_all unit_pixel (pixels img)"
  by (auto simp: normalized_tensor_def pixels_def list_all_iff)

lemma channel_unit:
  assumes "list_all unit_pixel ps"
  shows "list_all (\<lambda>x. 0 \<le> x \<and> x \<le> 1) (map (\<lambda>(r, g, b). r) ps)"
    and "list_all (\<lambda>x. 0 \<le> x \<and> x \<le> 1) (map (\<lambda>(r, g, b). g) ps)"
    and "list_all (\<lambda>x. 0 \<le> x \<and> x \<le> 1) (map (\<lambda>(r, g, b). b) ps)"
  using assms by (auto simp: list_all_iff unit_pixel_def)

lemma green_ratio_unit:
  fixes r g b :: real
  assumes "0 \<le> r" "0 \<le> g" "0 \<le> b"
  shows "0 \<le> g / (r + g + b + 0.001) \<and> g / (r + g + b + 0.001) \<le> 1"
proof -
  have pos: "0 < r + g + b + 0.001" using assms by simp
  have "g \<le> r + g + b + 0.001" using assms by simp
  with pos have "g / (r + g + b + 0.001) \<le> 1" by (simp add: divide_le_eq_1)
  moreover have "0 \<le> g / (r + g + b + 0.001)" using assms pos by simp
  ultimately show ?thesis by simp
qed

text \<open>The features of a uniform image, in closed form.\<close>

lemma length_concat_const:
  "list_all (\<lambda>row. length row = w) img \<Longrightarrow> length (concat img) = length img * w"
  by (induction img) auto

lemma normalized_pixels_length:
  "normalized_tensor img \<Longrightarrow> length (pixels img) = 50176"
proof -
  assume n: "normalized_tensor img"
  then have "list_all (\<lambda>row. length row = 224) img"
    by (auto simp: normalized_tensor_def list_all_iff)
  then have "length (concat img) = length img * 224" by (rule length_concat_const)
  with n show ?thesis by (simp add: normalized_tensor_def pixels_def)
qed

lemma concat_replicate_replicate:
  "concat (replicate h (replicate w x)) = replicate (h * w) x"
  by (induction h) (simp_all add: replicate_add)

lemma pixels_uniform: "pixels (uniform_image h w px) = replicate (h * w) px"
  by (simp add: pixels_def uniform_image_def concat_replicate_replicate)

lemma sum_list_concat_replicate:
  "sum_list (concat (replicate n ys)) = real n * sum_list (ys :: real list)"
  by (induction n) (simp_all add: algebra_simps)

lemma length_concat_replicate:
  "length (concat (replicate n ys)) = n * length ys"
  by (induction n) simp_all

lemma np_mean_concat_replicate:
  "0 < n \<Longrightarrow> np_mean (concat (replicate n ys)) = sum_list ys / real (length ys)"
  by (simp add: np_mean_def sum_list_concat_replicate length_concat_replicate)

lemma np_mean_replicate: "0 < n \<Longrightarrow> np_mean (replicate n x) = x"
  by (simp add: np_mean_def sum_list_replicate)

lemma map_concat_replicate:
  "map f (concat (replicate n ys)) = concat (replicate n (map f ys))"
  by (induction n) simp_all

lemma all_values_uniform:
  "all_values (uniform_image h w (r, g, b)) = concat (replicate (h * w) [r, g, b])"
  by (simp add: all_values_def pixels_uniform)

lemma np_mean_zero: "set xs \<subseteq> {0} \<Longrightarrow> np_mean xs = 0"
proof -
  assume "set xs \<subseteq> {0}"
  then have "sum_list xs = 0" by (induction xs) auto
  then show ?thesis by (simp add: np_mean_def)
qed

lemma abs_diff_const:
  assumes xs: "set xs \<subseteq> {v}" and ys: "set ys \<subseteq> {v}"
  shows "set (abs_diff xs ys) \<subseteq> {0}"
proof
  fix z
  assume z: "z \<in> set (abs_diff xs ys)"
  from z obtain a b where ab: "(a, b) \<in> set (zip xs ys)" and zab: "z = \<bar>b - a\<bar>"
    by (auto simp: abs_diff_def)
  from ab have "a \<in> set xs" and "b \<in> set ys"
    by (auto dest: set_zip_leftD set_zip_rightD)
  with xs ys have "a = v" and "b = v" by auto
  with zab show "z \<in> {0}" by simp
qed

lemma gray_uniform:
  "gray_of (uniform_image h w (r, g, b)) = replicate h (replicate w ((r + g + b) / 3))"
  by (simp add: gray_of_def uniform_image_def)

lemma edges_x_uniform: "set (edges_x_of (replicate h (replicate w v))) \<subseteq> {0}"
proof -
  have "set (abs_diff (replicate w v) (tl (replicate w v))) \<subseteq> {0}"
    by (rule abs_diff_const) auto
  then show ?thesis by (auto simp: edges_x_of_def)
qed

lemma edges_y_uniform: "set (edges_y_of (replicate h (replicate w v))) \<subseteq> {0}"
proof -
  have r: "set (abs_diff (replicate w v) (replicate w v)) \<subseteq> {0}"
    by (rule abs_diff_const) auto
  have "\<And>p. p \<in> set (zip (replicate h (replicate w v)) (tl (replicate h (replicate w v))))
     \<Longrightarrow> p = (replicate w v, replicate w v)"
  proof -
    fix p
    assume p: "p \<in> set (zip (replicate h (replicate w v)) (tl (replicate h (replicate w v))))"
    obtain a b where pab: "p = (a, b)" by (cases p)
    with p have "a \<in> set (replicate h (replicate w v))"
      and "b \<in> set (tl (replicate h (replicate w v)))"
      by (auto dest: set_zip_leftD set_zip_rightD)
    then have "a = replicate w v" and "b = replicate w v" by auto
    with pab show "p = (replicate w v, replicate w v)" by simp
  qed
  with r show ?thesis by (fastforce simp: edges_y_of_def)
qed

lemma features_uniform:
  assumes "0 < h" "0 < w"
  shows "analyze_image_features (Some (uniform_image h w (r, g, b))) =
     Some \<lparr>brightness = (r + g + b) / 3,
           contrast = sqrt (((r - (r + g + b) / 3)\<^sup>2 + (g - (r + g + b) / 3)\<^sup>2
                              + (b - (r + g + b) / 3)\<^sup>2) / 3),
           green_dominance = g / (r + g + b + 0.001),
           color_balance = \<bar>r - b\<bar>,
           texture_complexity = 0,
           r_mean = r, g_mean = g, b_mean = b\<rparr>"
proof -
  have n: "0 < h * w" using assms by simp
  have br: "np_mean (all_values (uniform_image h w (r, g, b))) = (r + g + b) / 3"
    using n by (simp add: all_values_uniform np_mean_concat_replicate)
  have var: "np_var (all_values (uniform_image h w (r, g, b))) =
      ((r - (r + g + b) / 3)\<^sup>2 + (g - (r + g + b) / 3)\<^sup>2 + (b - (r + g + b) / 3)\<^sup>2) / 3"
    unfolding np_var_def Let_def br
    using n by (simp add: all_values_uniform map_concat_replicate np_mean_concat_replicate)
  have c0: "np_mean (channel0 (uniform_image h w (r, g, b))) = r"
    using n by (simp add: channel0_def pixels_uniform np_mean_replicate)
  have c1: "np_mean (channel1 (uniform_image h w (r, g, b))) = g"
    using n by (simp add: channel1_def pixels_uniform np_mean_replicate)
  have c2: "np_mean (channel2 (uniform_image h w (r, g, b))) = b"
    using n by (simp add: channel2_def pixels_uniform np_mean_replicate)
  have ex: "np_mean (edges_x_of (gray_of (uniform_image h w (r, g, b)))) = 0"
    unfolding gray_uniform by (rule np_mean_zero) (rule edges_x_uniform)
  have ey: "np_mean (edges_y_of (gray_of (uniform_image h w (r, g, b)))) = 0"
    unfolding gray_uniform by (rule np_mean_zero) (rule edges_y_uniform)
  show ?thesis
    by (simp add: analyze_image_features_def Let_def br var c0 c1 c2 ex ey)
qed

lemma features_mid_green:
  "analyze_image_features (Some mid_green) =
     Some \<lparr>brightness = 50 / 153, contrast = sqrt (800 / 23409),
           green_dominance = 30000 / 50051, color_balance = 0, texture_complexity = 0,
           r_mean = 50 / 255, g_mean = 150 / 255, b_mean = 50 / 255\<rparr>"
  unfolding mid_green_def
  by (subst features_uniform) (simp_all add: power2_eq_square)

lemma contrast_mid_green: "sqrt (800 / 23409) < 0.2"
proof -
  have "sqrt (800 / 23409) < sqrt (0.04)" by (subst real_sqrt_less_iff) simp
  also have "sqrt (0.04) = 0.2"
    by (rule real_sqrt_unique) (simp_all add: power2_eq_square)
  finally show ?thesis .
qed

lemma tomato_bias: "get_crop_adjustment (Some ''tomato'') = - 0.5"
  by (simp add: get_crop_adjustment_def lower_def lower_char_def Let_def)

lemma unit_pixel_mid_green: "unit_pixel (50 / 255, 150 / 255, 50 / 255)"
  by (simp add: unit_pixel_def)

lemma normalized_mid_green: "normalized_tensor mid_green"
  using unit_pixel_mid_green
  by (simp add: normalized_tensor_def mid_green_def uniform_image_def list_all_iff)

text \<open>
  Claim C7. For every normalized tensor (224 by 224 pixels, every value in \<open>[0, 1]\<close>)
  the extractor returns a feature vector whose channel means are taken over a non-empty
  array and lie in \<open>[0, 1]\<close>, the denominator \<open>rMean + gMean + bMean + 0.001\<close> is at least
  0.001, and \<open>greenDominance\<close>, the quotient of \<open>gMean\<close> by it, lies in \<open>[0, 1]\<close>.
\<close>

theorem green_dominance_unit_interval:
  assumes "normalized_tensor img"
  shows "\<exists>f. analyze_image_features (Some img) = Some f
     \<and> length (channel1 img) = 50176
     \<and> 0 \<le> r_mean f \<and> r_mean f \<le> 1 \<and> 0 \<le> g_mean f \<and> g_mean f \<le> 1
     \<and> 0 \<le> b_mean f \<and> b_mean f \<le> 1
     \<and> 0.001 \<le> r_mean f + g_mean f + b_mean f + 0.001
     \<and> green_dominance f = g_mean f / (r_mean f + g_mean f + b_mean f + 0.001)
     \<and> 0 \<le> green_dominance f \<and> green_dominance f \<le> 1"
proof -
  have ps: "list_all unit_pixel (pixels img)" using assms by (rule unit_pixels)
  have len: "length (channel1 img) = 50176"
    using normalized_pixels_length [OF assms] by (simp add: channel1_def)
  have r: "0 \<le> np_mean (channel0 img) \<and> np_mean (channel0 img) \<le> 1"
    unfolding channel0_def using channel_unit(1)[OF ps] by (rule np_mean_unit)
  have g: "0 \<le> np_mean (channel1 img) \<and> np_mean (channel1 img) \<le> 1"
    unfolding channel1_def using channel_unit(2)[OF ps] by (rule np_mean_unit)
  have b: "0 \<le> np_mean (channel2 img) \<and> np_mean (channel2 img) \<le> 1"
    unfolding channel2_def using channel_unit(3)[OF ps] by (rule np_mean_unit)
  have gd: "0 \<le> np_mean (channel1 img)
              / (np_mean (channel0 img) + np_mean (channel1 img) + np_mean (channel2 img) + 0.001)
     \<and> np_mean (channel1 img)
              / (np_mean (channel0 img) + np_mean (channel1 img) + np_mean (channel2 img) + 0.001)
          \<le> 1"
    using r g b by (intro green_ratio_unit) simp_all
  show ?thesis
    using r g b gd len by (simp add: analyze_image_features_def Let_def)
qed

theorem green_dominance_unit_interval_witness:
  "normalized_tensor mid_green
   \<and> (\<exists>f. analyze_image_features (Some mid_green) = Some f
        \<and> 0 \<le> green_dominance f \<and> green_dominance f \<le> 1)"
proof -
  from green_dominance_unit_interval [OF normalized_mid_green]
  obtain f where "analyze_image_features (Some mid_green) = Some f"
    and "0 \<le> green_dominance f" and "green_dominance f \<le> 1"
    by blast
  with normalized_mid_green show ?thesis by blast
qed

text \<open>
  Claim C2, as the specification states it, fails. On the uniform image of colour
  (50, 150, 50)/255 with the label "tomato" and no jitter, the score is not in the
  open range (0.65, 0.75) and the verdict is not healthy.
\<close>

theorem mid_green_tomato_not_tier_two:
  "\<not> (0.65 < simulate_web_model_prediction (analyze_image_features (Some mid_green))
                (Some ''tomato'') 0
      \<and> simulate_web_model_prediction (analyze_image_features (Some mid_green))
                (Some ''tomato'') 0 < 0.75)
   \<and> \<not> sim_healthy (simulate_web_model_prediction (analyze_image_features (Some mid_green))
                (Some ''tomato'') 0)"
  using contrast_mid_green
  by (simp add: features_mid_green simulate_web_model_prediction_def health_score_def
      tomato_bias sim_healthy_def Let_def)

lemma mid_green_sel:
  "brightness mid_green_features = 50 / 153"
  "contrast mid_green_features = sqrt (800 / 23409)"
  "green_dominance mid_green_features = 30000 / 50051"
  "color_balance mid_green_features = 0"
  "texture_complexity mid_green_features = 0"
  by (simp_all add: mid_green_features_def)

lemma analyze_mid_green: "analyze_image_features (Some mid_green) = Some mid_green_features"
  unfolding mid_green_features_def by (rule features_mid_green)

lemma tier_mid_green: "spec_primary_tier mid_green_features = 0.45"
  by (simp add: spec_primary_tier_def mid_green_sel)

lemma adjustments_mid_green:
  "spec_contrast_adjustment mid_green_features = 0"
  "spec_balance_adjustment mid_green_features = 0"
  using contrast_mid_green
  by (simp_all add: spec_contrast_adjustment_def spec_balance_adjustment_def mid_green_sel)

lemma health_score_mid_green: "health_score mid_green_features (Some ''tomato'') = 0.4"
  using contrast_mid_green by (simp add: health_score_def Let_def tomato_bias mid_green_sel)

lemma simulate_mid_green:
  "simulate_web_model_prediction (Some mid_green_features) (Some ''tomato'') 0 = 0.4"
  by (simp add: simulate_web_model_prediction_def Let_def health_score_mid_green)

text \<open>
  Claim C2, amended. On that image the brightness is 50/153 (about 0.327) and the green
  dominance 30000/50051 (about 0.599); the brightness is not above 0.4, so the second
  tier does not apply, nor do the first and the third: the base is 0.45. The contrast
  is below 0.2 and the colour balance is 0, so no adjustment applies. The tomato bias
  contributes -0.5 * 0.1 = -0.05, the score without jitter is 0.40 and the verdict is
  not healthy.
\<close>

theorem mid_green_tomato_scenario:
  "analyze_image_features (Some mid_green) = Some mid_green_features
     \<and> brightness mid_green_features = 50 / 153
     \<and> \<bar>brightness mid_green_features - 0.327\<bar> < 0.001
     \<and> green_dominance mid_green_features = 30000 / 50051
     \<and> \<bar>green_dominance mid_green_features - 0.599\<bar> < 0.001
     \<and> \<not> (brightness mid_green_features > 0.4 \<and> green_dominance mid_green_features > 0.3)
     \<and> spec_primary_tier mid_green_features = 0.45
     \<and> spec_contrast_adjustment mid_green_features = 0
     \<and> spec_balance_adjustment mid_green_features = 0
     \<and> get_crop_adjustment (Some ''tomato'') * 0.1 = - 0.05
     \<and> health_score mid_green_features (Some ''tomato'') = 0.4
     \<and> simulate_web_model_prediction (Some mid_green_features) (Some ''tomato'') 0 = 0.4
     \<and> \<not> sim_healthy
           (simulate_web_model_prediction (Some mid_green_features) (Some ''tomato'') 0)"
proof -
  have b: "\<bar>brightness mid_green_features - 0.327\<bar> < 0.001"
    by (simp add: mid_green_sel)
  have g: "\<bar>green_dominance mid_green_features - 0.599\<bar> < 0.001"
    by (simp add: mid_green_sel)
  have n: "\<not> (brightness mid_green_features > 0.4 \<and> green_dominance mid_green_features > 0.3)"
    by (simp add: mid_green_sel)
  have t: "get_crop_adjustment (Some ''tomato'') * 0.1 = - 0.05"
    by (simp add: tomato_bias)
  have v: "\<not> sim_healthy
           (simulate_web_model_prediction (Some mid_green_features) (Some ''tomato'') 0)"
    by (simp add: simulate_mid_green sim_healthy_def)
  from analyze_mid_green mid_green_sel(1) b mid_green_sel(3) g n tier_mid_green
    adjustments_mid_green t health_score_mid_green simulate_mid_green v
  show ?thesis by (intro conjI)
qed

subsection \<open>Undecodable images at the two endpoints\<close>

lemma preprocess_body_rejected:
  "preprocess_body rejecting_decoder ''not-an-image'' = Inl ''cannot identify image file''"
  by (simp add: preprocess_body_def rejecting_decoder_def)

text \<open>
  When decoding fails with some message, \<^verbatim>\<open>api/predict.py\<close> raises a plain exception
  carrying it and its handler answers 500, while \<^verbatim>\<open>create_ml_api.py\<close> returns \<open>None\<close>
  and its endpoint answers 400. Neither runs the model on a substitute image.
\<close>

lemma preprocessing_failure_responses:
  assumes "preprocess_body decode image_data = Inl e"
    and "req_image data = Some image_data"
  shows "predict_preprocess_image decode image_data
           = Inl (Exception (''Image preprocessing failed: '' @ e))"
    and "ml_api_preprocess_image decode image_data = None"
    and "predict fl decode (Some model) (Inr (Some data))
           = Response 400 (Json_error ''Image preprocessing failed''
               ''Could not process the provided image'')"
    and "do_POST fl decode (Some (Inr model)) (Inr data)
           = [send_error_response 500 (''Image preprocessing failed: '' @ e)]"
  using assms
  by (simp_all add: predict_preprocess_image_def ml_api_preprocess_image_def predict_def
      do_POST_def load_model_def Let_def)

text \<open>
  Claim C8 holds of the specification and the serverless handler breaks it. On a
  request whose image cannot be decoded, \<open>do_POST\<close> answers with the status 500, a
  server error, through its blanket \<open>except\<close>; the claim asks for a 4xx answer. The
  sibling endpoint \<open>predict\<close> of \<^verbatim>\<open>create_ml_api.py\<close> answers 400 on the same request,
  and \<open>do_POST\<close> itself answers 400 when the image is missing.
\<close>

theorem undecodable_image_status_500:
  "do_POST binary32 rejecting_decoder (Some (Inr (constant_model 0.9)))
      (Inr \<lparr>req_image = Some ''not-an-image'', req_cropType = Some ''Palak''\<rparr>)
     = [Response 500
          (Error_body ''Image preprocessing failed: cannot identify image file'' 500)]
   \<and> predict binary32 rejecting_decoder (Some (constant_model 0.9))
      (Inr (Some \<lparr>req_image = Some ''not-an-image'', req_cropType = Some ''Palak''\<rparr>))
     = Response 400
         (Json_error ''Image preprocessing failed'' ''Could not process the provided image'')
   \<and> do_POST binary32 rejecting_decoder (Some (Inr (constant_model 0.9)))
      (Inr \<lparr>req_image = None, req_cropType = Some ''Palak''\<rparr>)
     = [Response 400 (Error_body ''No image data provided'' 400)]"
  by (simp add: do_POST_def predict_def load_model_def predict_preprocess_image_def
      ml_api_preprocess_image_def preprocess_body_rejected send_error_response_def)

text \<open>
  On the path where a prediction is made, neither endpoint delivers it: serialising
  the result dictionary raises, and both answer with the status 500.
\<close>

lemma prediction_is_not_serialised:
  assumes "preprocess_body decode image_data = Inr img_array"
    and "model img_array = Inr prediction"
    and "req_image data = Some image_data"
  shows "do_POST fl decode (Some (Inr model)) (Inr data)
           = [Response 200 Headers_only,
              send_error_response 500 ''Object of type bool is not JSON serializable'']"
    and "predict fl decode (Some model) (Inr (Some data))
           = Response 500
               (Json_error ''Prediction failed'' ''Object of type bool is not JSON serializable'')"
  using assms
  by (simp_all add: do_POST_def predict_def load_model_def predict_preprocess_image_def
      ml_api_preprocess_image_def json_dumps_def Let_def)

end
